theory Spec2Isabelle
  imports Main
begin

section \<open>The ReLoRA training driver (torchrun_main.py)\<close>

text \<open>
  The theory follows the control flow of \<^verbatim>\<open>main\<close> and \<^verbatim>\<open>evaluate_model\<close> as one
  process (the designated process, rank 0) executes it. The collaborators whose code is
  not part of the file (the model's forward pass, the optimizer, the scheduler, the data
  loaders, the other processes of the group) appear as data: a batch carries the loss the
  model returns on it, the optimizer is the sequence of calls made on it, the scheduler
  is the number of its steps, and the other processes are what they contribute to a
  reduction.
\<close>

subsection \<open>Exceptions\<close>

datatype error =
    AssertionError string
  | TypeError
  | ZeroDivisionError
  | OverflowError
  | ValueError string
  | RuntimeError string
  | FileNotFoundError string
  | UnboundLocalError
  | IsADirectoryError string
  | KeyError string

subsection \<open>Floating-point losses\<close>

text \<open>
  A loss is a float tensor. Only its class matters to the control flow: the magnitude of
  a finite value is not tracked, and the sum of two finite values is taken to be finite
  (a float32 sum that overflows is not represented).
\<close>

datatype fl = Finite | PosInf | NegInf | NaN

definition isnan :: "fl \<Rightarrow> bool" where
  "isnan x = (x = NaN)"

fun fl_add :: "fl \<Rightarrow> fl \<Rightarrow> fl" where
  "fl_add NaN y = NaN"
| "fl_add x NaN = NaN"
| "fl_add PosInf NegInf = NaN"
| "fl_add NegInf PosInf = NaN"
| "fl_add PosInf y = PosInf"
| "fl_add x PosInf = PosInf"
| "fl_add NegInf y = NegInf"
| "fl_add x NegInf = NegInf"
| "fl_add Finite Finite = Finite"

subsection \<open>Arguments\<close>

text \<open>
  The fields of \<^verbatim>\<open>args\<close> that the code below reads. A field whose command-line
  default is \<^verbatim>\<open>None\<close> is an option.
\<close>

record args =
  batch_size :: "int option"
  gradient_accumulation :: "int option"
  total_batch_size :: "int option"
  num_training_steps :: int
  save_every :: int
  eval_every :: int
  relora :: "int option"
  resume_from :: "string option"
  warmed_up_model :: "string option"
  save_dir :: string
  autoresume :: bool
  distributed_type :: string

subsection \<open>Batch-size arithmetic at startup (main, lines 355-365)\<close>

text \<open>
  \<^verbatim>\<open>
  if args.total_batch_size is not None:
      if args.gradient_accumulation is None:
          assert args.total_batch_size % world_size == 0, ...
          args.gradient_accumulation = args.total_batch_size // (args.batch_size * world_size)
          assert args.gradient_accumulation > 0, ...
  assert args.gradient_accumulation * args.batch_size * world_size == args.total_batch_size, ...
  \<close>
  Arithmetic on \<^verbatim>\<open>None\<close> raises TypeError, a zero divisor ZeroDivisionError, and a
  product compared with \<^verbatim>\<open>None\<close> is unequal to it.
\<close>

definition derive_gradient_accumulation :: "int \<Rightarrow> args \<Rightarrow> error + args" where
  "derive_gradient_accumulation world_size a =
     (case total_batch_size a of
        None \<Rightarrow> Inr a
      | Some t \<Rightarrow>
          (case gradient_accumulation a of
             Some g \<Rightarrow> Inr a
           | None \<Rightarrow>
               if world_size = 0 then Inl ZeroDivisionError
               else if t mod world_size \<noteq> 0
                 then Inl (AssertionError ''total_batch_size must be divisible by world_size'')
               else (case batch_size a of
                       None \<Rightarrow> Inl TypeError
                     | Some b \<Rightarrow>
                         if b * world_size = 0 then Inl ZeroDivisionError
                         else if t div (b * world_size) > 0
                           then Inr (a\<lparr>gradient_accumulation := Some (t div (b * world_size))\<rparr>)
                         else Inl (AssertionError ''gradient_accumulation must be greater than 0''))))"

definition assert_batch_product :: "int \<Rightarrow> args \<Rightarrow> error + args" where
  "assert_batch_product world_size a =
     (case gradient_accumulation a of
        None \<Rightarrow> Inl TypeError
      | Some g \<Rightarrow>
          (case batch_size a of
             None \<Rightarrow> Inl TypeError
           | Some b \<Rightarrow>
               if total_batch_size a = Some (g * b * world_size) then Inr a
               else Inl (AssertionError
                 ''gradient_accumulation * batch_size * world_size must be equal to total_batch_size'')))"

definition check_batch_args :: "int \<Rightarrow> args \<Rightarrow> error + args" where
  "check_batch_args world_size a =
     (case derive_gradient_accumulation world_size a of
        Inl err \<Rightarrow> Inl err
      | Inr a' \<Rightarrow> assert_batch_product world_size a')"


definition example_args :: args where
  "example_args =
     \<lparr>batch_size = Some 3, gradient_accumulation = None, total_batch_size = Some 24,
      num_training_steps = 10000, save_every = 10000, eval_every = 1000,
      relora = None, resume_from = None, warmed_up_model = None,
      save_dir = ''out/run'', autoresume = False, distributed_type = ''ddp''\<rparr>"

subsection \<open>Batches, data loaders and the process group\<close>

text \<open>
  A batch is its number of tokens (\<^verbatim>\<open>batch["input_ids"].numel()\<close>) and the loss
  the model returns on it at the moment it is processed. A data loader is the finite list
  of its batches.
\<close>

record batch =
  numel :: int
  loss :: fl

text \<open>
  What the other processes contribute to the two reductions of one call of
  \<^verbatim>\<open>evaluate_model\<close>: the token count of their first batch, and their loss and
  token sums.
\<close>

record eval_peers =
  peer_first_tokens :: int
  peer_loss :: fl
  peer_tokens :: int

text \<open>
  The environment of the training loop: the size of the process group, and for an
  evaluation started at a given update step the batches of the evaluation loader (with
  the losses of the model as it is then) and the contributions of the other processes.
\<close>

record env =
  world_size :: int
  eval_loader :: "int \<Rightarrow> batch list"
  eval_group :: "int \<Rightarrow> eval_peers"

subsection \<open>evaluate_model (lines 129-171)\<close>

text \<open>
  \<^verbatim>\<open>int(target_eval_tokens / tokens_in_batch_info[0])\<close> truncates towards zero. The
  quotient is computed in float32 by the source; it is taken here as the exact quotient.
  A zero divisor gives an infinite or NaN quotient, whose conversion raises.
\<close>

definition trunc_div :: "int \<Rightarrow> int \<Rightarrow> int" where
  "trunc_div x y = (if (x < 0) = (y < 0) then \<bar>x\<bar> div \<bar>y\<bar> else - (\<bar>x\<bar> div \<bar>y\<bar>))"

definition estimate_eval_iters :: "int \<Rightarrow> int \<Rightarrow> error + int" where
  "estimate_eval_iters target_eval_tokens tokens_in_batch_info =
     (if tokens_in_batch_info = 0
        then (if target_eval_tokens = 0
                then Inl (ValueError ''cannot convert float NaN to integer'')
                else Inl OverflowError)
      else Inr (trunc_div target_eval_tokens tokens_in_batch_info))"

text \<open>
  The loop over the batches, after the first batch has fixed \<^verbatim>\<open>n_eval_iters\<close>. The
  arguments are the budget, \<^verbatim>\<open>n_eval_iters\<close>, the index \<^verbatim>\<open>i\<close> of the next
  batch and \<^verbatim>\<open>ddp_loss_info\<close>; the result is the final \<^verbatim>\<open>ddp_loss_info\<close>
  and the number of batches the model was run on.
\<close>

fun eval_batches :: "int \<Rightarrow> int \<Rightarrow> nat \<Rightarrow> fl \<times> int \<Rightarrow> batch list \<Rightarrow> error + ((fl \<times> int) \<times> nat)" where
  "eval_batches target n_eval_iters i info [] = Inr (info, i)"
| "eval_batches target n_eval_iters i info (b # bs) =
     (if target \<noteq> -1 \<and> int i > n_eval_iters then Inr (info, i)
      else if \<not> numel b > 0 then Inl (AssertionError ''Batch size is zero'')
      else eval_batches target n_eval_iters (Suc i)
             (fl_add (fst info) (loss b), snd info + numel b) bs)"

record eval_result =
  loss_sum :: fl
  evaluated_on_tokens :: int
  n_eval_iters :: "int option"
  forward_passes :: nat

text \<open>
  The result holds the reduced \<^verbatim>\<open>ddp_loss_info\<close> (the returned
  \<^verbatim>\<open>eval_loss\<close> is its first component divided by its second), the value of
  \<^verbatim>\<open>n_eval_iters\<close> (none when the loader is empty) and the number of batches this
  process ran the model on.
\<close>

definition evaluate_model :: "eval_peers \<Rightarrow> int \<Rightarrow> batch list \<Rightarrow> error + eval_result" where
  "evaluate_model peers target_eval_tokens eval_dataloader =
     (case (case eval_dataloader of
              [] \<Rightarrow> Inr (None, ((Finite, 0), 0))
            | b # bs \<Rightarrow>
                (case estimate_eval_iters target_eval_tokens (numel b + peer_first_tokens peers) of
                   Inl err \<Rightarrow> Inl err
                 | Inr n \<Rightarrow>
                     (case eval_batches target_eval_tokens n 0 (Finite, 0) eval_dataloader of
                        Inl err \<Rightarrow> Inl err
                      | Inr r \<Rightarrow> Inr (Some n, r)))) of
        Inl err \<Rightarrow> Inl err
      | Inr (n, (info, k)) \<Rightarrow>
          if isnan (fst info) then Inl (RuntimeError ''got nan loss. This is probably a bug.'')
          else Inr \<lparr>loss_sum = fl_add (fst info) (peer_loss peers),
                    evaluated_on_tokens = snd info + peer_tokens peers,
                    n_eval_iters = n, forward_passes = k\<rparr>)"

subsection \<open>Optimizer, scheduler, files\<close>

text \<open>
  The optimizer state is the sequence of the calls that changed it
  (\<^verbatim>\<open>optimizer.step()\<close>, \<^verbatim>\<open>training_utils.optimizer_reset\<close>); the scheduler
  state is the number of \<^verbatim>\<open>scheduler.step()\<close> calls.
\<close>

datatype opt_call = OptStep | OptReset

text \<open>
  \<^verbatim>\<open>training_state.json\<close> and \<^verbatim>\<open>optimizer.pt\<close>. The wall-clock
  \<^verbatim>\<open>update_time\<close>, the \<^verbatim>\<open>wandb_id\<close>, the run configuration and the dtype
  stored with them are left out, and so are the weight tensors of
  \<^verbatim>\<open>pytorch_model.bin\<close>. Of \<^verbatim>\<open>training_config.yaml\<close>, the dump of
  \<^verbatim>\<open>vars(args)\<close>, the file keeps the \<^verbatim>\<open>batch_size\<close> entry, the one that is read
  back.
\<close>

record training_state_checkpoint =
  ts_global_step :: int
  ts_update_step :: int
  ts_tokens_seen :: int
  ts_tokens_seen_before :: int
  ts_n_lora_restarts :: int

record optimizer_checkpoint =
  ck_optimizer :: "opt_call list"
  ck_scheduler :: nat
  ck_update_step :: int
  ck_global_step :: int

datatype content =
    Directory
  | PytorchModelBin
  | OptimizerPt optimizer_checkpoint
  | TrainingStateJson training_state_checkpoint
  | TrainingConfigYaml "int option"

type_synonym filesystem = "string \<rightharpoonup> content"

text \<open>Python's \<^verbatim>\<open>str\<close> of an integer, for the f-strings that build paths.\<close>

fun str_nat :: "nat \<Rightarrow> string" where
  "str_nat n =
     (if n < 10 then [char_of (48 + n)]
      else str_nat (n div 10) @ [char_of (48 + n mod 10)])"

definition str_int :: "int \<Rightarrow> string" where
  "str_int i = (if i < 0 then CHR ''-'' # str_nat (nat (- i)) else str_nat (nat i))"

text \<open>\<^verbatim>\<open>os.path.dirname\<close> on POSIX paths.\<close>

definition dirname :: "string \<Rightarrow> string" where
  "dirname p =
     (let head = rev (dropWhile (\<lambda>c. c \<noteq> CHR ''/'') (rev p))
      in if head \<noteq> [] \<and> (\<exists>c \<in> set head. c \<noteq> CHR ''/'')
           then rev (dropWhile (\<lambda>c. c = CHR ''/'') (rev head))
         else head)"

subsection \<open>save_model (lines 174-253)\<close>

text \<open>
  \<^verbatim>\<open>save_model_ddp\<close> on the process of rank 0: it creates the parent directory
  (\<^verbatim>\<open>os.makedirs\<close> of an empty path raises), \<^verbatim>\<open>save_pretrained\<close> creates the
  directory and writes the weights, then \<^verbatim>\<open>optimizer.pt\<close> and
  \<^verbatim>\<open>training_state.json\<close> are written.
\<close>

definition save_model_ddp ::
  "filesystem \<Rightarrow> opt_call list \<Rightarrow> nat \<Rightarrow> training_state_checkpoint \<Rightarrow> string \<Rightarrow> error + filesystem" where
  "save_model_ddp f optimizer_state scheduler_state training_state dir =
     (if dirname dir = [] then Inl (FileNotFoundError [])
      else
        let f1 = f(dirname dir \<mapsto> Directory);
            f2 = f1(dir \<mapsto> Directory, dir @ ''/pytorch_model.bin'' \<mapsto> PytorchModelBin);
            f3 = f2(dir @ ''/optimizer.pt'' \<mapsto> OptimizerPt
                     \<lparr>ck_optimizer = optimizer_state, ck_scheduler = scheduler_state,
                      ck_update_step = ts_update_step training_state,
                      ck_global_step = ts_global_step training_state\<rparr>)
        in Inr (f3(dir @ ''/training_state.json'' \<mapsto> TrainingStateJson training_state)))"

definition save_model ::
  "string \<Rightarrow> filesystem \<Rightarrow> opt_call list \<Rightarrow> nat \<Rightarrow> training_state_checkpoint \<Rightarrow> string \<Rightarrow> error + filesystem" where
  "save_model distributed f optimizer_state scheduler_state training_state dir =
     (if distributed = ''ddp'' then save_model_ddp f optimizer_state scheduler_state training_state dir
      else if distributed = ''fsdp'' then Inl (RuntimeError ''FSDP is not supported anymore.'')
      else Inl (ValueError ''Unknown distributed type''))"

subsection \<open>The state of the training loop\<close>

text \<open>
  The trace lists what the loop did, in order: a forward pass that computed a loss, an
  optimizer update (with the update step it produced and the optimizer and scheduler
  state right after it), a merge-and-reinit of the adapter (with the update step), an
  evaluation, a call of \<^verbatim>\<open>save_model\<close> (with the directory passed to it).
\<close>

datatype event =
    Forward
  | Updated int "opt_call list" nat
  | MergeAndReinit int
  | Evaluated int
  | Saved string

record train_state =
  global_step :: int
  local_step :: int
  update_step :: int
  tokens_seen :: int
  tokens_seen_before :: int
  n_lora_restarts :: int
  optimizer :: "opt_call list"
  scheduler :: nat
  fs :: filesystem
  trace :: "event list"

text \<open>Lines 497-501 and 722: the counters of a fresh run.\<close>

definition initial_state :: "filesystem \<Rightarrow> train_state" where
  "initial_state f =
     \<lparr>global_step = 0, local_step = 0, update_step = 0, tokens_seen = 0,
      tokens_seen_before = 0, n_lora_restarts = 0, optimizer = [], scheduler = 0,
      fs = f, trace = []\<rparr>"

text \<open>
  Lines 503-524: a warmed-up model brings its weights and, when the directory has a
  \<^verbatim>\<open>training_state.json\<close>, four of the counters (not \<^verbatim>\<open>n_lora_restarts\<close>,
  not the optimizer).
\<close>

definition load_warmed_up_model :: "string \<Rightarrow> train_state \<Rightarrow> error + train_state" where
  "load_warmed_up_model dir s =
     (case fs s (dir @ ''/pytorch_model.bin'') of
        Some PytorchModelBin \<Rightarrow>
          (case fs s (dir @ ''/training_state.json'') of
             Some (TrainingStateJson old) \<Rightarrow>
               Inr (s\<lparr>global_step := ts_global_step old, update_step := ts_update_step old,
                       tokens_seen := ts_tokens_seen old,
                       tokens_seen_before := ts_tokens_seen_before old\<rparr>)
           | _ \<Rightarrow> Inr s)
      | _ \<Rightarrow> Inl (FileNotFoundError (dir @ ''/pytorch_model.bin'')))"

text \<open>
  A local variable of \<^verbatim>\<open>main\<close> that only one branch assigns.
\<close>

datatype 'a local_var = Unbound | Bound 'a

text \<open>
  Lines 376-393: when the save directory exists, the run stops unless
  \<^verbatim>\<open>--autoresume\<close> is on; otherwise
  \<^verbatim>\<open>training_state, resume_from = training_utils.get_last_training_state(args.save_dir)\<close>
  binds the local \<^verbatim>\<open>resume_from\<close> and overwrites \<^verbatim>\<open>args.resume_from\<close> with it.
  \<^verbatim>\<open>get_last_training_state\<close> belongs to a module that is not part of the file: the
  directory it returns (or \<^verbatim>\<open>None\<close>) is a parameter. When the save directory does
  not exist, the local \<^verbatim>\<open>resume_from\<close> stays unbound.
\<close>

definition check_save_dir ::
  "(filesystem \<Rightarrow> string \<Rightarrow> string option) \<Rightarrow> args \<Rightarrow> filesystem \<Rightarrow>
     error + (args \<times> string option local_var)" where
  "check_save_dir get_last_training_state a f =
     (if f (save_dir a) \<noteq> None then
        (if \<not> autoresume a
           then Inl (ValueError ''Save directory already exists and --autoresume is off'')
         else (let resume_from_local = get_last_training_state f (save_dir a)
               in Inr (a\<lparr>resume_from := resume_from_local\<rparr>, Bound resume_from_local)))
      else Inr (a, Unbound))"

text \<open>
  Lines 395-399: the process of rank 0 creates the save directory (\<^verbatim>\<open>os.makedirs\<close>
  of an empty path raises) and dumps the arguments to \<^verbatim>\<open>training_config.yaml\<close>.
\<close>

definition write_training_config :: "args \<Rightarrow> filesystem \<Rightarrow> error + filesystem" where
  "write_training_config a f =
     (if save_dir a = [] then Inl (FileNotFoundError [])
      else Inr (f(save_dir a \<mapsto> Directory,
                  save_dir a @ ''/training_config.yaml'' \<mapsto> TrainingConfigYaml (batch_size a))))"

text \<open>
  Lines 526-545: resuming reads the weights and the five counters of
  \<^verbatim>\<open>training_state.json\<close>.
\<close>

definition load_training_state :: "string \<Rightarrow> train_state \<Rightarrow> error + train_state" where
  "load_training_state dir s =
     (case fs s (dir @ ''/pytorch_model.bin'') of
        Some PytorchModelBin \<Rightarrow>
          (case fs s (dir @ ''/training_state.json'') of
             Some (TrainingStateJson old) \<Rightarrow>
               Inr (s\<lparr>global_step := ts_global_step old, update_step := ts_update_step old,
                       tokens_seen := ts_tokens_seen old,
                       tokens_seen_before := ts_tokens_seen_before old,
                       n_lora_restarts := ts_n_lora_restarts old\<rparr>)
           | _ \<Rightarrow> Inl (FileNotFoundError (dir @ ''/training_state.json'')))
      | _ \<Rightarrow> Inl (FileNotFoundError (dir @ ''/pytorch_model.bin'')))"

text \<open>
  Lines 668-689: the fresh scheduler is stepped \<^verbatim>\<open>update_step\<close> times; optimizer,
  scheduler, \<^verbatim>\<open>update_step\<close> and \<^verbatim>\<open>global_step\<close> are loaded from
  \<^verbatim>\<open>optimizer.pt\<close> in \<^verbatim>\<open>args.resume_from\<close>; then
  \<^verbatim>\<open>os.path.join(resume_from, "training_config.yaml")\<close> reads the local
  \<^verbatim>\<open>resume_from\<close> (not \<^verbatim>\<open>args.resume_from\<close>), and when that file exists and
  holds another batch size the resume is refused. A file of another kind at that path has
  no \<^verbatim>\<open>batch_size\<close> entry.
\<close>

definition load_optimizer ::
  "args \<Rightarrow> string option local_var \<Rightarrow> string \<Rightarrow> train_state \<Rightarrow> error + train_state" where
  "load_optimizer a resume_from_local dir s =
     (let s1 = s\<lparr>scheduler := scheduler s + nat (update_step s)\<rparr>
      in case fs s (dir @ ''/optimizer.pt'') of
           Some (OptimizerPt ck) \<Rightarrow>
             (let s2 = s1\<lparr>optimizer := ck_optimizer ck, scheduler := ck_scheduler ck,
                         update_step := ck_update_step ck,
                         global_step := ck_global_step ck\<rparr>
              in case resume_from_local of
                   Unbound \<Rightarrow> Inl UnboundLocalError
                 | Bound None \<Rightarrow> Inl TypeError
                 | Bound (Some local_dir) \<Rightarrow>
                     (case fs s (local_dir @ ''/training_config.yaml'') of
                        None \<Rightarrow> Inr s2
                      | Some (TrainingConfigYaml old_batch_size) \<Rightarrow>
                          if batch_size a \<noteq> old_batch_size
                            then Inl (RuntimeError
                              ''Cannot resume from a checkpoint with a different batch size.'')
                          else Inr s2
                      | Some Directory \<Rightarrow>
                          Inl (IsADirectoryError (local_dir @ ''/training_config.yaml''))
                      | Some other \<Rightarrow> Inl (KeyError ''batch_size'')))
         | _ \<Rightarrow> Inl (FileNotFoundError (dir @ ''/optimizer.pt'')))"

text \<open>
  The arguments and the state with which the loop starts. In the order of \<^verbatim>\<open>main\<close>:
  the check of the save directory, the dump of the configuration,
  \<^verbatim>\<open>if args.warmed_up_model is not None\<close>, \<^verbatim>\<open>if args.resume_from\<close> (an empty
  string is false) for the training state, the refusal of FSDP (lines 582-586), and
  \<^verbatim>\<open>if args.resume_from\<close> again for the optimizer. The data sets, the construction of
  the model and the choice of the optimizer, which lie between these, are not part of the
  model.
\<close>

definition startup_state ::
  "(filesystem \<Rightarrow> string \<Rightarrow> string option) \<Rightarrow> args \<Rightarrow> filesystem \<Rightarrow>
     error + (args \<times> train_state)" where
  "startup_state get_last_training_state a f =
     (case check_save_dir get_last_training_state a f of
        Inl err \<Rightarrow> Inl err
      | Inr (a1, resume_from_local) \<Rightarrow>
          (case write_training_config a1 f of
             Inl err \<Rightarrow> Inl err
           | Inr f1 \<Rightarrow>
               (case (case warmed_up_model a1 of
                        None \<Rightarrow> Inr (initial_state f1)
                      | Some dir \<Rightarrow> load_warmed_up_model dir (initial_state f1)) of
                  Inl err \<Rightarrow> Inl err
                | Inr s \<Rightarrow>
                    (case (case resume_from a1 of
                             None \<Rightarrow> Inr s
                           | Some dir \<Rightarrow> if dir = [] then Inr s else load_training_state dir s) of
                       Inl err \<Rightarrow> Inl err
                     | Inr s1 \<Rightarrow>
                         if distributed_type a1 = ''fsdp''
                           then Inl (RuntimeError ''FSDP is not supported anymore.'')
                         else (case resume_from a1 of
                                 None \<Rightarrow> Inr (a1, s1)
                               | Some dir \<Rightarrow>
                                   if dir = [] then Inr (a1, s1)
                                   else (case load_optimizer a1 resume_from_local dir s1 of
                                           Inl err \<Rightarrow> Inl err
                                         | Inr s2 \<Rightarrow> Inr (a1, s2)))))))"

subsection \<open>One update step (lines 754-868)\<close>

text \<open>Lines 756-759: optimizer and scheduler step, \<^verbatim>\<open>update_step += 1\<close>.\<close>

definition apply_update :: "train_state \<Rightarrow> train_state" where
  "apply_update s =
     (let o' = optimizer s @ [OptStep]; c' = Suc (scheduler s); u' = update_step s + 1
      in s\<lparr>optimizer := o', scheduler := c', update_step := u',
            trace := trace s @ [Updated u' o' c']\<rparr>)"

definition training_state_of :: "train_state \<Rightarrow> training_state_checkpoint" where
  "training_state_of s =
     \<lparr>ts_global_step = global_step s, ts_update_step = update_step s,
      ts_tokens_seen = tokens_seen s, ts_tokens_seen_before = tokens_seen_before s,
      ts_n_lora_restarts = n_lora_restarts s\<rparr>"

definition model_directory :: "args \<Rightarrow> int \<Rightarrow> string" where
  "model_directory a u = save_dir a @ ''/model_'' @ str_int u"

definition write_checkpoint :: "args \<Rightarrow> string \<Rightarrow> train_state \<Rightarrow> error + train_state" where
  "write_checkpoint a dir s =
     (case save_model (distributed_type a) (fs s) (optimizer s) (scheduler s)
             (training_state_of s) dir of
        Inl err \<Rightarrow> Inl err
      | Inr f \<Rightarrow> Inr (s\<lparr>fs := f, trace := trace s @ [Saved dir]\<rparr>))"

text \<open>
  Lines 762-782:
  \<^verbatim>\<open>if local_step > args.gradient_accumulation and update_step % args.save_every == 0\<close>
\<close>

definition save_phase :: "args \<Rightarrow> int \<Rightarrow> train_state \<Rightarrow> error + train_state" where
  "save_phase a ga s =
     (if local_step s > ga then
        (if save_every a = 0 then Inl ZeroDivisionError
         else if update_step s mod save_every a = 0
           then write_checkpoint a (model_directory a (update_step s)) s
         else Inr s)
      else Inr s)"

text \<open>
  Lines 785-786:
  \<^verbatim>\<open>can_reset = args.resume_from is not None
      or (args.relora is not None and local_step * args.gradient_accumulation > args.relora)\<close>
\<close>

definition can_reset :: "args \<Rightarrow> int \<Rightarrow> train_state \<Rightarrow> bool" where
  "can_reset a ga s =
     (resume_from a \<noteq> None \<or>
      (case relora a of None \<Rightarrow> False | Some r \<Rightarrow> local_step s * ga > r))"

text \<open>
  Lines 788-819: \<^verbatim>\<open>if can_reset and update_step % args.relora == 1\<close>. The modulus
  is evaluated only when \<^verbatim>\<open>can_reset\<close> holds; its divisor may be \<^verbatim>\<open>None\<close> or
  zero. The warning about the learning rate changes nothing.
\<close>

definition reset_phase :: "args \<Rightarrow> int \<Rightarrow> train_state \<Rightarrow> error + train_state" where
  "reset_phase a ga s =
     (if can_reset a ga s then
        (case relora a of
           None \<Rightarrow> Inl TypeError
         | Some r \<Rightarrow>
             if r = 0 then Inl ZeroDivisionError
             else if update_step s mod r = 1 then
               (if distributed_type a = ''ddp'' \<or> distributed_type a = ''fsdp'' then
                  Inr (s\<lparr>n_lora_restarts := n_lora_restarts s + 1,
                          optimizer := optimizer s @ [OptReset],
                          trace := trace s @ [MergeAndReinit (update_step s)]\<rparr>)
                else Inl (ValueError ''Unknown distributed type''))
             else Inr s)
      else Inr s)"

text \<open>Lines 824-837: the periodic evaluation, with the default budget.\<close>

definition eval_phase :: "args \<Rightarrow> env \<Rightarrow> train_state \<Rightarrow> error + train_state" where
  "eval_phase a e s =
     (if eval_every a = 0 then Inl ZeroDivisionError
      else if update_step s mod eval_every a = 0 then
        (case evaluate_model (eval_group e (update_step s)) 10000000
                (eval_loader e (update_step s)) of
           Inl err \<Rightarrow> Inl err
         | Inr r \<Rightarrow> Inr (s\<lparr>trace := trace s @ [Evaluated (update_step s)]\<rparr>))
      else Inr s)"

text \<open>
  The update step as a whole; it ends with \<^verbatim>\<open>tokens_seen_before = tokens_seen\<close>.
  The metrics record sent to the logging service is not part of the state.
\<close>

definition update_phase :: "args \<Rightarrow> env \<Rightarrow> int \<Rightarrow> train_state \<Rightarrow> error + train_state" where
  "update_phase a e ga s =
     (case save_phase a ga (apply_update s) of
        Inl err \<Rightarrow> Inl err
      | Inr s1 \<Rightarrow>
          (case reset_phase a ga s1 of
             Inl err \<Rightarrow> Inl err
           | Inr s2 \<Rightarrow>
               (case eval_phase a e s2 of
                  Inl err \<Rightarrow> Inl err
                | Inr s3 \<Rightarrow> Inr (s3\<lparr>tokens_seen_before := tokens_seen s3\<rparr>))))"

subsection \<open>The training loop (lines 728-868)\<close>

datatype loop_ctl = Continue | Break

text \<open>The body of \<^verbatim>\<open>for batch in train_loader\<close>.\<close>

definition micro_step :: "args \<Rightarrow> env \<Rightarrow> train_state \<Rightarrow> batch \<Rightarrow> error + (loop_ctl \<times> train_state)" where
  "micro_step a e s b =
     (let s1 = s\<lparr>global_step := global_step s + 1, local_step := local_step s + 1\<rparr>
      in if update_step s1 \<ge> num_training_steps a then Inr (Break, s1)
         else
           let s2 = s1\<lparr>tokens_seen := tokens_seen s1 + numel b * world_size e,
                       trace := trace s1 @ [Forward]\<rparr>
           in if isnan (loss b) then Inl (AssertionError ''Loss is nan'')
              else (case gradient_accumulation a of
                      None \<Rightarrow> Inl TypeError
                    | Some ga \<Rightarrow>
                        if ga = 0 then Inl ZeroDivisionError
                        else if global_step s2 mod ga \<noteq> 0 then Inr (Continue, s2)
                        else (case update_phase a e ga s2 of
                                Inl err \<Rightarrow> Inl err
                              | Inr s3 \<Rightarrow> Inr (Continue, s3))))"

text \<open>
  How the loop ended: by its \<^verbatim>\<open>break\<close>, or because the loader ran out (the
  \<^verbatim>\<open>else\<close> branch of the \<^verbatim>\<open>for\<close>).
\<close>

datatype loop_end = Stopped | Exhausted

fun train_loop :: "args \<Rightarrow> env \<Rightarrow> train_state \<Rightarrow> batch list \<Rightarrow> error + (loop_end \<times> train_state)" where
  "train_loop a e s [] = Inr (Exhausted, s)"
| "train_loop a e s (b # bs) =
     (case micro_step a e s b of
        Inl err \<Rightarrow> Inl err
      | Inr (Break, s') \<Rightarrow> Inr (Stopped, s')
      | Inr (Continue, s') \<Rightarrow> train_loop a e s' bs)"

subsection \<open>The checkpoint after the loop (lines 876-892)\<close>

text \<open>
  \<^verbatim>\<open>current_model_directory = f"{args.save_dir}/model_{update_step}"\<close>; when it does
  not exist, \<^verbatim>\<open>save_model\<close> is called with \<^verbatim>\<open>save_dir=args.save_dir\<close>.
\<close>

definition final_save :: "args \<Rightarrow> train_state \<Rightarrow> error + train_state" where
  "final_save a s =
     (if fs s (model_directory a (update_step s)) \<noteq> None then Inr s
      else write_checkpoint a (save_dir a) s)"

text \<open>The training part of \<^verbatim>\<open>main\<close>: the loop, then the checkpoint after it.\<close>

definition train :: "args \<Rightarrow> env \<Rightarrow> train_state \<Rightarrow> batch list \<Rightarrow> error + (loop_end \<times> train_state)" where
  "train a e s train_loader =
     (case train_loop a e (s\<lparr>local_step := 0\<rparr>) train_loader of
        Inl err \<Rightarrow> Inl err
      | Inr (how, s1) \<Rightarrow>
          (case final_save a s1 of
             Inl err \<Rightarrow> Inl err
           | Inr s2 \<Rightarrow> Inr (how, s2)))"

text \<open>\<^verbatim>\<open>main\<close> from the check of the save directory to the checkpoint after the loop.\<close>

definition run_main ::
  "(filesystem \<Rightarrow> string \<Rightarrow> string option) \<Rightarrow> args \<Rightarrow> env \<Rightarrow> filesystem \<Rightarrow> batch list \<Rightarrow>
     error + (loop_end \<times> train_state)" where
  "run_main get_last_training_state a e f train_loader =
     (case startup_state get_last_training_state a f of
        Inl err \<Rightarrow> Inl err
      | Inr (a1, s) \<Rightarrow> train a1 e s train_loader)"

text \<open>Readings of the trace.\<close>

definition n_forward :: "train_state \<Rightarrow> nat" where
  "n_forward s = length (filter (\<lambda>ev. ev = Forward) (trace s))"

fun reset_steps :: "event list \<Rightarrow> int list" where
  "reset_steps [] = []"
| "reset_steps (MergeAndReinit u # evs) = u # reset_steps evs"
| "reset_steps (ev # evs) = reset_steps evs"

definition resets :: "train_state \<Rightarrow> int list" where
  "resets s = reset_steps (trace s)"

fun update_steps :: "event list \<Rightarrow> int list" where
  "update_steps [] = []"
| "update_steps (Updated u opt_state sched_state # evs) = u # update_steps evs"
| "update_steps (ev # evs) = update_steps evs"

definition updates :: "train_state \<Rightarrow> int list" where
  "updates s = update_steps (trace s)"

text \<open>
  The condition under which the update step that ends with \<^verbatim>\<open>local_step = l\<close> and
  \<^verbatim>\<open>update_step = u\<close> performs the reset (lines 785-788), when it raises nothing.
\<close>

definition reset_due :: "args \<Rightarrow> int \<Rightarrow> int \<Rightarrow> int \<Rightarrow> bool" where
  "reset_due a ga l u =
     ((resume_from a \<noteq> None \<or> (case relora a of None \<Rightarrow> False | Some r \<Rightarrow> l * ga > r)) \<and>
      (case relora a of None \<Rightarrow> False | Some r \<Rightarrow> r \<noteq> 0 \<and> u mod r = 1))"

text \<open>Inputs for the examples.\<close>

definition example_batch :: batch where
  "example_batch = \<lparr>numel = 8, loss = Finite\<rparr>"

definition inf_batch :: batch where
  "inf_batch = \<lparr>numel = 8, loss = PosInf\<rparr>"

definition nan_batch :: batch where
  "nan_batch = \<lparr>numel = 8, loss = NaN\<rparr>"

definition no_peers :: eval_peers where
  "no_peers = \<lparr>peer_first_tokens = 0, peer_loss = Finite, peer_tokens = 0\<rparr>"

definition example_env :: env where
  "example_env = \<lparr>world_size = 1, eval_loader = (\<lambda>u. []), eval_group = (\<lambda>u. no_peers)\<rparr>"


definition resumed_state :: train_state where
  "resumed_state =
     (initial_state Map.empty)\<lparr>global_step := 100, update_step := 100, tokens_seen := 800,
        tokens_seen_before := 800, optimizer := replicate 100 OptStep, scheduler := 100\<rparr>"

text \<open>A run of three update steps whose last update step is a reset step.\<close>

definition reset_at_end_args :: args where
  "reset_at_end_args =
     example_args\<lparr>gradient_accumulation := Some 1, relora := Some 2, num_training_steps := 3\<rparr>"

text \<open>
  A first run of four update steps that saves every second one, the files it leaves, and
  two ways of starting a second run from its checkpoint of update step 4: naming the
  checkpoint with \<^verbatim>\<open>--resume_from\<close> and a new save directory, or
  \<^verbatim>\<open>--autoresume\<close> on the old save directory.
\<close>

definition no_checkpoint :: "filesystem \<Rightarrow> string \<Rightarrow> string option" where
  "no_checkpoint f dir = None"

definition first_run_args :: args where
  "first_run_args = example_args\<lparr>gradient_accumulation := Some 1, save_every := 2\<rparr>"

definition first_run_files :: filesystem where
  "first_run_files =
     fs (snd (projr (run_main no_checkpoint first_run_args example_env Map.empty
                       (replicate 4 example_batch))))"

definition resume_from_args :: args where
  "resume_from_args =
     example_args\<lparr>gradient_accumulation := Some 1, save_dir := ''out/new'',
                  resume_from := Some ''out/run/model_4''\<rparr>"

definition autoresume_args :: args where
  "autoresume_args = example_args\<lparr>gradient_accumulation := Some 1, autoresume := True\<rparr>"

definition last_is_model_4 :: "filesystem \<Rightarrow> string \<Rightarrow> string option" where
  "last_is_model_4 f dir = Some ''out/run/model_4''"

text \<open>A run of two update steps that saves every second one.\<close>

definition save_at_end_args :: args where
  "save_at_end_args =
     example_args\<lparr>gradient_accumulation := Some 1, num_training_steps := 2, save_every := 2\<rparr>"

declare str_nat.simps [simp del]

section \<open>Startup: the batch-size identity\<close>


lemma derive_keeps_batch_fields:
  "derive_gradient_accumulation w a = Inr a' \<Longrightarrow>
     batch_size a' = batch_size a \<and> total_batch_size a' = total_batch_size a \<and>
     (gradient_accumulation a \<noteq> None \<longrightarrow> a' = a)"
  by (auto simp: derive_gradient_accumulation_def split: option.splits if_splits)

text \<open>
  C5. A configuration that passes the startup check satisfies
  gradient_accumulation * batch_size * world_size = total_batch_size, with all three
  values present; and a configuration that gives all three values and violates the
  identity is rejected with an exception.
\<close>

theorem C5_batch_identity_or_failure:
  "(check_batch_args w a = Inr a' \<longrightarrow>
      (\<exists>g b t. gradient_accumulation a' = Some g \<and> batch_size a' = Some b \<and>
               total_batch_size a' = Some t \<and> g * b * w = t)) \<and>
   (gradient_accumulation c = Some g0 \<and> batch_size c = Some b0 \<and>
    total_batch_size c = Some t0 \<and> g0 * b0 * w \<noteq> t0 \<longrightarrow>
      (\<exists>err. check_batch_args w c = Inl err))"
  by (auto simp: check_batch_args_def assert_batch_product_def
        derive_gradient_accumulation_def split: option.splits if_splits sum.splits)

theorem C5_batch_identity_witness:
  "check_batch_args 2 example_args = Inr (example_args\<lparr>gradient_accumulation := Some 4\<rparr>) \<and>
   (\<exists>g b t. gradient_accumulation (example_args\<lparr>gradient_accumulation := Some 4\<rparr>) = Some g \<and>
            batch_size (example_args\<lparr>gradient_accumulation := Some 4\<rparr>) = Some b \<and>
            total_batch_size (example_args\<lparr>gradient_accumulation := Some 4\<rparr>) = Some t \<and>
            g * b * 2 = t) \<and>
   gradient_accumulation (example_args\<lparr>gradient_accumulation := Some 5\<rparr>) = Some 5 \<and>
   batch_size (example_args\<lparr>gradient_accumulation := Some 5\<rparr>) = Some 3 \<and>
   total_batch_size (example_args\<lparr>gradient_accumulation := Some 5\<rparr>) = Some 24 \<and>
   (5::int) * 3 * 2 \<noteq> 24 \<and>
   (\<exists>err. check_batch_args 2 (example_args\<lparr>gradient_accumulation := Some 5\<rparr>) = Inl err)"
  using C5_batch_identity_or_failure
    [of 2 example_args "example_args\<lparr>gradient_accumulation := Some 4\<rparr>"
        "example_args\<lparr>gradient_accumulation := Some 5\<rparr>" 5 3 24]
  by (simp add: check_batch_args_def assert_batch_product_def
        derive_gradient_accumulation_def example_args_def)

section \<open>The training loop: what one iteration changes\<close>

lemma reset_steps_append [simp]: "reset_steps (xs @ ys) = reset_steps xs @ reset_steps ys"
  by (induction xs rule: reset_steps.induct) auto

lemma update_steps_append [simp]: "update_steps (xs @ ys) = update_steps xs @ update_steps ys"
  by (induction xs rule: update_steps.induct) auto

lemma n_forward_simps [simp]:
  "n_forward (s\<lparr>trace := trace s @ [Forward]\<rparr>) = Suc (n_forward s)"
  by (simp add: n_forward_def)

lemma write_checkpoint_frame:
  "write_checkpoint a d s = Inr s' \<Longrightarrow> \<exists>f. s' = s\<lparr>fs := f, trace := trace s @ [Saved d]\<rparr>"
  by (auto simp: write_checkpoint_def split: sum.splits)

lemma save_phase_frame:
  "save_phase a ga s = Inr s' \<Longrightarrow>
     s' = s \<or> (\<exists>f d. s' = s\<lparr>fs := f, trace := trace s @ [Saved d]\<rparr>)"
  by (auto simp: save_phase_def split: if_splits dest!: write_checkpoint_frame)

lemma reset_phase_frame:
  "reset_phase a ga s = Inr s' \<Longrightarrow>
     (if reset_due a ga (local_step s) (update_step s)
      then s' = s\<lparr>n_lora_restarts := n_lora_restarts s + 1,
                  optimizer := optimizer s @ [OptReset],
                  trace := trace s @ [MergeAndReinit (update_step s)]\<rparr>
      else s' = s)"
  by (auto simp: reset_phase_def reset_due_def can_reset_def split: if_splits option.splits)

lemma eval_phase_frame:
  "eval_phase a e s = Inr s' \<Longrightarrow>
     s' = s \<or> s' = s\<lparr>trace := trace s @ [Evaluated (update_step s)]\<rparr>"
  by (auto simp: eval_phase_def split: if_splits sum.splits)

lemma update_phase_counters:
  assumes "update_phase a e ga s = Inr s'"
  shows "global_step s' = global_step s" "local_step s' = local_step s"
    "update_step s' = update_step s + 1" "tokens_seen s' = tokens_seen s"
    "n_forward s' = n_forward s"
    "updates s' = updates s @ [update_step s + 1]"
    "resets s' = resets s @ (if reset_due a ga (local_step s) (update_step s + 1) then [update_step s + 1] else [])"
    "n_lora_restarts s' = n_lora_restarts s + (if reset_due a ga (local_step s) (update_step s + 1) then 1 else 0)"
proof -
  from assms obtain s1 s2 s3 where
    1: "save_phase a ga (apply_update s) = Inr s1" and
    2: "reset_phase a ga s1 = Inr s2" and
    3: "eval_phase a e s2 = Inr s3" and
    4: "s' = s3\<lparr>tokens_seen_before := tokens_seen s3\<rparr>"
    by (auto simp: update_phase_def split: sum.splits)
  note f1 = save_phase_frame[OF 1] and f2 = reset_phase_frame[OF 2] and f3 = eval_phase_frame[OF 3]
  show "global_step s' = global_step s" "local_step s' = local_step s"
    "update_step s' = update_step s + 1" "tokens_seen s' = tokens_seen s"
    using f1 f2 f3 4 by (auto simp: apply_update_def Let_def split: if_splits)
  show "n_forward s' = n_forward s"
    using f1 f2 f3 4 by (auto simp: apply_update_def Let_def n_forward_def split: if_splits)
  show "updates s' = updates s @ [update_step s + 1]"
    using f1 f2 f3 4 by (auto simp: apply_update_def Let_def updates_def split: if_splits)
  show "resets s' = resets s @ (if reset_due a ga (local_step s) (update_step s + 1) then [update_step s + 1] else [])"
    using f1 f2 f3 4 by (auto simp: apply_update_def Let_def resets_def split: if_splits)
  show "n_lora_restarts s' = n_lora_restarts s + (if reset_due a ga (local_step s) (update_step s + 1) then 1 else 0)"
    using f1 f2 f3 4 by (auto simp: apply_update_def Let_def split: if_splits)
qed


lemma micro_step_Break:
  "micro_step a e s b = Inr (Break, s') \<Longrightarrow>
     num_training_steps a \<le> update_step s \<and>
     s' = s\<lparr>global_step := global_step s + 1, local_step := local_step s + 1\<rparr>"
  by (auto simp: micro_step_def Let_def split: if_splits option.splits sum.splits)

lemma micro_step_Continue:
  assumes "micro_step a e s b = Inr (Continue, s')"
  shows "\<exists>ga. gradient_accumulation a = Some ga \<and> ga \<noteq> 0 \<and>
           update_step s < num_training_steps a \<and> loss b \<noteq> NaN \<and>
           global_step s' = global_step s + 1 \<and> local_step s' = local_step s + 1 \<and>
           tokens_seen s' = tokens_seen s + numel b * world_size e \<and>
           n_forward s' = Suc (n_forward s) \<and>
           (if (global_step s + 1) mod ga \<noteq> 0
            then update_step s' = update_step s \<and> updates s' = updates s \<and>
                 resets s' = resets s \<and> n_lora_restarts s' = n_lora_restarts s
            else update_step s' = update_step s + 1 \<and>
                 updates s' = updates s @ [update_step s + 1] \<and>
                 resets s' = resets s @
                   (if reset_due a ga (local_step s + 1) (update_step s + 1)
                    then [update_step s + 1] else []) \<and>
                 n_lora_restarts s' = n_lora_restarts s +
                   (if reset_due a ga (local_step s + 1) (update_step s + 1) then 1 else 0))"
proof -
  let ?s2 = "s\<lparr>global_step := global_step s + 1, local_step := local_step s + 1,
               tokens_seen := tokens_seen s + numel b * world_size e,
               trace := trace s @ [Forward]\<rparr>"
  from assms obtain ga where ga: "gradient_accumulation a = Some ga" "ga \<noteq> 0"
    and u: "update_step s < num_training_steps a" and l: "loss b \<noteq> NaN"
    and r: "(global_step s + 1) mod ga \<noteq> 0 \<and> s' = ?s2 \<or>
            (global_step s + 1) mod ga = 0 \<and> update_phase a e ga ?s2 = Inr s'"
    by (auto simp: micro_step_def Let_def isnan_def split: if_splits option.splits sum.splits)
  from r show ?thesis
  proof
    assume "(global_step s + 1) mod ga \<noteq> 0 \<and> s' = ?s2"
    then show ?thesis using ga u l
      by (simp add: n_forward_def updates_def resets_def)
  next
    assume h: "(global_step s + 1) mod ga = 0 \<and> update_phase a e ga ?s2 = Inr s'"
    note c = update_phase_counters[OF conjunct2[OF h]]
    show ?thesis using ga u l h c
      by (simp add: n_forward_def updates_def resets_def)
  qed
qed


lemma train_loop_Cons_cases:
  assumes "train_loop a e s (b # bs) = Inr (h, s')"
  shows "(h = Stopped \<and> micro_step a e s b = Inr (Break, s')) \<or>
         (\<exists>s1. micro_step a e s b = Inr (Continue, s1) \<and> train_loop a e s1 bs = Inr (h, s'))"
  using assms by (auto split: sum.splits loop_ctl.splits)

lemma train_loop_counts:
  "train_loop a e s bs = Inr (h, s') \<Longrightarrow>
     \<exists>k. n_forward s' = n_forward s + k \<and> k \<le> length bs \<and>
         global_step s' = global_step s + int k + (if h = Stopped then 1 else 0) \<and>
         local_step s' = local_step s + int k + (if h = Stopped then 1 else 0) \<and>
         tokens_seen s' = tokens_seen s + world_size e * sum_list (map numel (take k bs)) \<and>
         (h = Stopped \<longrightarrow> k < length bs \<and> num_training_steps a \<le> update_step s') \<and>
         (h = Exhausted \<longrightarrow> k = length bs)"
proof (induction bs arbitrary: s)
  case Nil
  then show ?case by auto
next
  case (Cons b bs)
  from train_loop_Cons_cases[OF Cons.prems] show ?case
  proof
    assume "h = Stopped \<and> micro_step a e s b = Inr (Break, s')"
    then have "h = Stopped" and br: "num_training_steps a \<le> update_step s \<and>
        s' = s\<lparr>global_step := global_step s + 1, local_step := local_step s + 1\<rparr>"
      using micro_step_Break by blast+
    then show ?thesis
      by (intro exI[of _ 0]) (simp add: n_forward_def)
  next
    assume "\<exists>s1. micro_step a e s b = Inr (Continue, s1) \<and> train_loop a e s1 bs = Inr (h, s')"
    then obtain s1 where m: "micro_step a e s b = Inr (Continue, s1)"
      and t: "train_loop a e s1 bs = Inr (h, s')" by blast
    from Cons.IH[OF t] obtain k where k: "n_forward s' = n_forward s1 + k" "k \<le> length bs"
      "global_step s' = global_step s1 + int k + (if h = Stopped then 1 else 0)"
      "local_step s' = local_step s1 + int k + (if h = Stopped then 1 else 0)"
      "tokens_seen s' = tokens_seen s1 + world_size e * sum_list (map numel (take k bs))"
      "h = Stopped \<longrightarrow> k < length bs \<and> num_training_steps a \<le> update_step s'"
      "h = Exhausted \<longrightarrow> k = length bs" by blast
    from micro_step_Continue[OF m] have c: "global_step s1 = global_step s + 1"
      "local_step s1 = local_step s + 1"
      "tokens_seen s1 = tokens_seen s + numel b * world_size e"
      "n_forward s1 = Suc (n_forward s)" by auto
    show ?thesis using k c
      by (intro exI[of _ "Suc k"]) (simp add: algebra_simps)
  qed
qed



section \<open>The loop runs to the requested number of updates\<close>











section \<open>How the loop ends\<close>

lemma write_checkpoint_files:
  assumes "write_checkpoint a d s = Inr s'"
  shows "fs s' (d @ ''/pytorch_model.bin'') = Some PytorchModelBin"
    "fs s' (d @ ''/training_state.json'') = Some (TrainingStateJson (training_state_of s))"
    "fs s' (d @ ''/optimizer.pt'') = Some (OptimizerPt
        \<lparr>ck_optimizer = optimizer s, ck_scheduler = scheduler s,
         ck_update_step = update_step s, ck_global_step = global_step s\<rparr>)"
    "distributed_type a = ''ddp''"
proof -
  from assms have d: "distributed_type a = ''ddp''" and n: "dirname d \<noteq> []"
    by (auto simp: write_checkpoint_def save_model_def save_model_ddp_def Let_def
          split: sum.splits if_splits)
  from assms d n have f: "fs s' = ((fs s)(dirname d \<mapsto> Directory, d \<mapsto> Directory,
      d @ ''/pytorch_model.bin'' \<mapsto> PytorchModelBin,
      d @ ''/optimizer.pt'' \<mapsto> OptimizerPt
        \<lparr>ck_optimizer = optimizer s, ck_scheduler = scheduler s,
         ck_update_step = update_step s, ck_global_step = global_step s\<rparr>,
      d @ ''/training_state.json'' \<mapsto> TrainingStateJson (training_state_of s)))"
    by (auto simp: write_checkpoint_def save_model_def save_model_ddp_def Let_def
          training_state_of_def)
  show "distributed_type a = ''ddp''" by (rule d)
  show "fs s' (d @ ''/pytorch_model.bin'') = Some PytorchModelBin" by (simp add: f)
  show "fs s' (d @ ''/training_state.json'') = Some (TrainingStateJson (training_state_of s))"
    by (simp add: f)
  show "fs s' (d @ ''/optimizer.pt'') = Some (OptimizerPt
        \<lparr>ck_optimizer = optimizer s, ck_scheduler = scheduler s,
         ck_update_step = update_step s, ck_global_step = global_step s\<rparr>)"
    by (simp add: f)
qed

lemma write_checkpoint_directory:
  assumes "write_checkpoint a d s = Inr s'"
  shows "fs s' d = Some Directory"
proof -
  from assms have "distributed_type a = ''ddp''" "dirname d \<noteq> []"
    by (auto simp: write_checkpoint_def save_model_def save_model_ddp_def Let_def
          split: sum.splits if_splits)
  with assms show ?thesis
    by (auto simp: write_checkpoint_def save_model_def save_model_ddp_def Let_def)
qed

lemma train_loop_Stopped_at_once:
  assumes "train_loop a e s bs = Inr (Stopped, s')" "n_forward s' = n_forward s"
  shows "num_training_steps a \<le> update_step s \<and>
         s' = s\<lparr>global_step := global_step s + 1, local_step := local_step s + 1\<rparr>"
proof (cases bs)
  case Nil
  then show ?thesis using assms(1) by simp
next
  case (Cons b bs')
  from train_loop_Cons_cases[OF assms(1)[unfolded Cons]] show ?thesis
  proof
    assume "Stopped = Stopped \<and> micro_step a e s b = Inr (Break, s')"
    then show ?thesis using micro_step_Break by blast
  next
    assume "\<exists>s1. micro_step a e s b = Inr (Continue, s1) \<and> train_loop a e s1 bs' = Inr (Stopped, s')"
    then obtain s1 where m: "micro_step a e s b = Inr (Continue, s1)"
      and t: "train_loop a e s1 bs' = Inr (Stopped, s')" by blast
    from micro_step_Continue[OF m] have "n_forward s1 = Suc (n_forward s)" by auto
    moreover from train_loop_counts[OF t] have "n_forward s1 \<le> n_forward s'" by auto
    ultimately show ?thesis using assms(2) by simp
  qed
qed

lemma train_loop_Stopped_last:
  "train_loop a e s bs = Inr (Stopped, s') \<Longrightarrow> n_forward s' \<noteq> n_forward s \<Longrightarrow>
     \<exists>t b t'. micro_step a e t b = Inr (Continue, t') \<and>
              num_training_steps a \<le> update_step t' \<and>
              s' = t'\<lparr>global_step := global_step t' + 1, local_step := local_step t' + 1\<rparr>"
proof (induction bs arbitrary: s)
  case Nil
  then show ?case by simp
next
  case (Cons b bs)
  from train_loop_Cons_cases[OF Cons.prems(1)] show ?case
  proof
    assume "Stopped = Stopped \<and> micro_step a e s b = Inr (Break, s')"
    then have "s' = s\<lparr>global_step := global_step s + 1, local_step := local_step s + 1\<rparr>"
      using micro_step_Break by blast
    then have "n_forward s' = n_forward s" by (simp add: n_forward_def)
    then show ?thesis using Cons.prems(2) by simp
  next
    assume "\<exists>s1. micro_step a e s b = Inr (Continue, s1) \<and> train_loop a e s1 bs = Inr (Stopped, s')"
    then obtain s1 where m: "micro_step a e s b = Inr (Continue, s1)"
      and t: "train_loop a e s1 bs = Inr (Stopped, s')" by blast
    show ?thesis
    proof (cases "n_forward s' = n_forward s1")
      case True
      from train_loop_Stopped_at_once[OF t True] m show ?thesis by blast
    next
      case False
      from Cons.IH[OF t False] show ?thesis .
    qed
  qed
qed

lemma update_phase_checkpoint:
  assumes "update_phase a e ga s = Inr s'" "local_step s > ga"
    "(update_step s + 1) mod save_every a = 0"
  shows "\<exists>s1. write_checkpoint a (model_directory a (update_step s + 1)) (apply_update s) = Inr s1 \<and>
              fs s' = fs s1"
proof -
  from assms(1) obtain s1 s2 s3 where
    1: "save_phase a ga (apply_update s) = Inr s1" and
    2: "reset_phase a ga s1 = Inr s2" and
    3: "eval_phase a e s2 = Inr s3" and
    4: "s' = s3\<lparr>tokens_seen_before := tokens_seen s3\<rparr>"
    by (auto simp: update_phase_def split: sum.splits)
  have w: "write_checkpoint a (model_directory a (update_step s + 1)) (apply_update s) = Inr s1"
    using 1 assms(2,3) by (auto simp: save_phase_def apply_update_def Let_def split: if_splits)
  have "fs s' = fs s1"
    using reset_phase_frame[OF 2] eval_phase_frame[OF 3] 4 by (auto split: if_splits)
  with w show ?thesis by blast
qed

lemma micro_step_periodic_save:
  assumes m: "micro_step a e t b = Inr (Continue, t')"
    and g: "gradient_accumulation a = Some ga"
    and u: "update_step t' \<noteq> update_step t"
    and l: "ga < local_step t'" and d: "update_step t' mod save_every a = 0"
  shows "fs t' (model_directory a (update_step t')) = Some Directory \<and>
         (\<exists>ts. fs t' (model_directory a (update_step t') @ ''/training_state.json'')
                 = Some (TrainingStateJson ts) \<and>
               ts_global_step ts = global_step t' \<and> ts_update_step ts = update_step t' \<and>
               ts_tokens_seen ts = tokens_seen t')"
proof -
  let ?s2 = "t\<lparr>global_step := global_step t + 1, local_step := local_step t + 1,
               tokens_seen := tokens_seen t + numel b * world_size e,
               trace := trace t @ [Forward]\<rparr>"
  from micro_step_Continue[OF m] g u have c: "(global_step t + 1) mod ga = 0"
    "update_step t' = update_step t + 1" "local_step t' = local_step t + 1"
    "global_step t' = global_step t + 1" "tokens_seen t' = tokens_seen t + numel b * world_size e"
    by (auto split: if_splits)
  from m g c(1) have up: "update_phase a e ga ?s2 = Inr t'"
    by (auto simp: micro_step_def Let_def split: if_splits option.splits sum.splits)
  have "ga < local_step ?s2" "(update_step ?s2 + 1) mod save_every a = 0"
    using l d c by simp_all
  from update_phase_checkpoint[OF up this] obtain w where
    w: "write_checkpoint a (model_directory a (update_step ?s2 + 1)) (apply_update ?s2) = Inr w"
    and f: "fs t' = fs w" by auto
  from write_checkpoint_directory[OF w] write_checkpoint_files(2)[OF w] f c
  show ?thesis by (simp add: training_state_of_def apply_update_def Let_def)
qed


text \<open>
  C10 (as amended). When the loop ends by its \<^verbatim>\<open>break\<close>, \<^verbatim>\<open>global_step\<close> has been
  incremented for the batch on which it broke: it is the number \<open>k\<close> of batches a loss
  was computed for, plus one (counted from the \<^verbatim>\<open>global_step\<close> the loop started
  with), while \<^verbatim>\<open>tokens_seen\<close> has grown by the tokens of those \<open>k\<close> batches only. A
  checkpoint is written after the loop only when \<^verbatim>\<open>model_{update_step}\<close> does not
  exist, and it then records these values. When that directory exists nothing is written
  after the loop; in particular, when the last update step made the periodic save, the
  last checkpoint is the one in \<^verbatim>\<open>model_{update_step}\<close>, and it records
  \<^verbatim>\<open>global_step\<close> as \<open>k\<close> past the start, without the increment of the break.
\<close>

theorem C10_global_step_at_break:
  assumes "train_loop a e s bs = Inr (Stopped, s')"
  shows "\<exists>k. n_forward s' = n_forward s + k \<and> k < length bs \<and>
           global_step s' = global_step s + int k + 1 \<and>
           tokens_seen s' = tokens_seen s + world_size e * sum_list (map numel (take k bs)) \<and>
           (fs s' (model_directory a (update_step s')) = None \<and> final_save a s' = Inr s'' \<longrightarrow>
              (\<exists>ts. fs s'' (save_dir a @ ''/training_state.json'') = Some (TrainingStateJson ts) \<and>
                    ts_global_step ts = global_step s + int k + 1 \<and>
                    ts_tokens_seen ts = tokens_seen s + world_size e * sum_list (map numel (take k bs)))) \<and>
           (fs s' (model_directory a (update_step s')) \<noteq> None \<longrightarrow> final_save a s' = Inr s') \<and>
           (0 < k \<and> gradient_accumulation a = Some ga \<and> ga < local_step s' - 1 \<and>
            update_step s' mod save_every a = 0 \<longrightarrow>
              final_save a s' = Inr s' \<and>
              (\<exists>ts. fs s' (model_directory a (update_step s') @ ''/training_state.json'')
                      = Some (TrainingStateJson ts) \<and>
                    ts_global_step ts = global_step s + int k \<and>
                    ts_update_step ts = update_step s'))"
proof -
  from train_loop_counts[OF assms] obtain k where
    k: "n_forward s' = n_forward s + k" "k < length bs"
       "global_step s' = global_step s + int k + 1"
       "tokens_seen s' = tokens_seen s + world_size e * sum_list (map numel (take k bs))"
    by auto
  have written: "\<exists>ts. fs s'' (save_dir a @ ''/training_state.json'') = Some (TrainingStateJson ts) \<and>
             ts_global_step ts = global_step s + int k + 1 \<and>
             ts_tokens_seen ts = tokens_seen s + world_size e * sum_list (map numel (take k bs))"
    if "fs s' (model_directory a (update_step s')) = None" "final_save a s' = Inr s''"
  proof -
    from that have "write_checkpoint a (save_dir a) s' = Inr s''" by (auto simp: final_save_def)
    from write_checkpoint_files(2)[OF this] k(3,4) show ?thesis
      by (simp add: training_state_of_def)
  qed
  have skipped: "final_save a s' = Inr s'"
    if "fs s' (model_directory a (update_step s')) \<noteq> None"
    using that by (auto simp: final_save_def)
  have periodic: "final_save a s' = Inr s' \<and>
              (\<exists>ts. fs s' (model_directory a (update_step s') @ ''/training_state.json'')
                      = Some (TrainingStateJson ts) \<and>
                    ts_global_step ts = global_step s + int k \<and>
                    ts_update_step ts = update_step s')"
    if h: "0 < k" "gradient_accumulation a = Some ga" "ga < local_step s' - 1"
      "update_step s' mod save_every a = 0"
  proof -
    have "n_forward s' \<noteq> n_forward s" using k(1) h(1) by simp
    from train_loop_Stopped_last[OF assms this] obtain t b t' where
      m: "micro_step a e t b = Inr (Continue, t')"
      and n: "num_training_steps a \<le> update_step t'"
      and e: "s' = t'\<lparr>global_step := global_step t' + 1, local_step := local_step t' + 1\<rparr>"
      by blast
    from micro_step_Continue[OF m] n have u: "update_step t' \<noteq> update_step t" by auto
    have l: "ga < local_step t'" using h(3) e by simp
    have d: "update_step t' mod save_every a = 0" using h(4) e by simp
    from micro_step_periodic_save[OF m h(2) u l d] e k(3)
    have p: "fs s' (model_directory a (update_step s')) = Some Directory"
      "\<exists>ts. fs s' (model_directory a (update_step s') @ ''/training_state.json'')
                      = Some (TrainingStateJson ts) \<and>
                    ts_global_step ts = global_step s + int k \<and>
                    ts_update_step ts = update_step s'"
      by auto
    from p(1) have "final_save a s' = Inr s'" by (simp add: final_save_def)
    with p(2) show ?thesis by blast
  qed
  show ?thesis
  proof (intro exI[of _ k] conjI)
    show "n_forward s' = n_forward s + k" by (rule k(1))
    show "k < length bs" by (rule k(2))
    show "global_step s' = global_step s + int k + 1" by (rule k(3))
    show "tokens_seen s' = tokens_seen s + world_size e * sum_list (map numel (take k bs))"
      by (rule k(4))
    show "fs s' (model_directory a (update_step s')) = None \<and> final_save a s' = Inr s'' \<longrightarrow>
              (\<exists>ts. fs s'' (save_dir a @ ''/training_state.json'') = Some (TrainingStateJson ts) \<and>
                    ts_global_step ts = global_step s + int k + 1 \<and>
                    ts_tokens_seen ts = tokens_seen s + world_size e * sum_list (map numel (take k bs)))"
      using written by blast
    show "fs s' (model_directory a (update_step s')) \<noteq> None \<longrightarrow> final_save a s' = Inr s'"
      using skipped by blast
    show "0 < k \<and> gradient_accumulation a = Some ga \<and> ga < local_step s' - 1 \<and>
            update_step s' mod save_every a = 0 \<longrightarrow>
              final_save a s' = Inr s' \<and>
              (\<exists>ts. fs s' (model_directory a (update_step s') @ ''/training_state.json'')
                      = Some (TrainingStateJson ts) \<and>
                    ts_global_step ts = global_step s + int k \<and>
                    ts_update_step ts = update_step s')"
    proof (intro impI)
      assume h: "0 < k \<and> gradient_accumulation a = Some ga \<and> ga < local_step s' - 1 \<and>
            update_step s' mod save_every a = 0"
      then have 1: "0 < k" and 2: "gradient_accumulation a = Some ga"
        and 3: "ga < local_step s' - 1" and 4: "update_step s' mod save_every a = 0"
        by simp_all
      from periodic[OF 1 2 3 4]
      show "final_save a s' = Inr s' \<and>
              (\<exists>ts. fs s' (model_directory a (update_step s') @ ''/training_state.json'')
                      = Some (TrainingStateJson ts) \<and>
                    ts_global_step ts = global_step s + int k \<and>
                    ts_update_step ts = update_step s')" .
    qed
  qed
qed

theorem C10_global_step_at_break_witness:
  "(\<exists>s' s''. train_loop (example_args\<lparr>gradient_accumulation := Some 1, num_training_steps := 2\<rparr>)
               example_env (initial_state Map.empty) (replicate 5 example_batch) = Inr (Stopped, s') \<and>
            fs s' (model_directory (example_args\<lparr>gradient_accumulation := Some 1, num_training_steps := 2\<rparr>)
                     (update_step s')) = None \<and>
            final_save (example_args\<lparr>gradient_accumulation := Some 1, num_training_steps := 2\<rparr>) s' = Inr s'' \<and>
            n_forward s' = 2 \<and> global_step s' = 3 \<and> tokens_seen s' = 16 \<and>
            (\<exists>ts. fs s'' ''out/run/training_state.json'' = Some (TrainingStateJson ts) \<and>
                  ts_global_step ts = 3 \<and> ts_tokens_seen ts = 16)) \<and>
   (\<exists>s'. train_loop save_at_end_args example_env (initial_state Map.empty)
            (replicate 5 example_batch) = Inr (Stopped, s') \<and>
         n_forward s' = 2 \<and> global_step s' = 3 \<and> local_step s' = 3 \<and> update_step s' = 2 \<and>
         fs s' (model_directory save_at_end_args (update_step s')) \<noteq> None \<and>
         final_save save_at_end_args s' = Inr s' \<and>
         (\<exists>ts. fs s' ''out/run/model_2/training_state.json'' = Some (TrainingStateJson ts) \<and>
               ts_global_step ts = 2 \<and> ts_update_step ts = 2))"
proof (rule conjI)
  let ?a = "example_args\<lparr>gradient_accumulation := Some 1, num_training_steps := 2\<rparr>"
  let ?s = "initial_state Map.empty"
  let ?bs = "replicate 5 example_batch"
  let ?r = "train_loop ?a example_env ?s ?bs"
  have r: "\<not> isl ?r" "fst (projr ?r) = Stopped" "n_forward (snd (projr ?r)) = 2"
    "fs (snd (projr ?r)) (model_directory ?a (update_step (snd (projr ?r)))) = None"
    "\<not> isl (final_save ?a (snd (projr ?r)))"
    by code_simp+
  from r(1) obtain p where p: "?r = Inr p" by (cases ?r) auto
  obtain h s' where hs: "p = (h, s')" by (cases p)
  from r(2) p hs have t: "?r = Inr (Stopped, s')" by simp
  from r(3,4,5) t have n: "n_forward s' = 2"
    and f: "fs s' (model_directory ?a (update_step s')) = None"
    and "\<not> isl (final_save ?a s')" by simp_all
  then obtain s'' where w: "final_save ?a s' = Inr s''" by (cases "final_save ?a s'") auto
  from C10_global_step_at_break[OF t, of s'' 1] n f w
  have "global_step s' = 3 \<and> tokens_seen s' = 16 \<and>
        (\<exists>ts. fs s'' ''out/run/training_state.json'' = Some (TrainingStateJson ts) \<and>
              ts_global_step ts = 3 \<and> ts_tokens_seen ts = 16)"
    by (auto simp: n_forward_def initial_state_def example_env_def example_args_def
          example_batch_def numeral_2_eq_2)
  with t n f w show "\<exists>s' s''. ?r = Inr (Stopped, s') \<and>
            fs s' (model_directory ?a (update_step s')) = None \<and>
            final_save ?a s' = Inr s'' \<and>
            n_forward s' = 2 \<and> global_step s' = 3 \<and> tokens_seen s' = 16 \<and>
            (\<exists>ts. fs s'' ''out/run/training_state.json'' = Some (TrainingStateJson ts) \<and>
                  ts_global_step ts = 3 \<and> ts_tokens_seen ts = 16)" by blast
next
  let ?a = "save_at_end_args"
  let ?s = "initial_state Map.empty"
  let ?bs = "replicate 5 example_batch"
  let ?r = "train_loop ?a example_env ?s ?bs"
  have r: "\<not> isl ?r" "fst (projr ?r) = Stopped" "n_forward (snd (projr ?r)) = 2"
    "local_step (snd (projr ?r)) = 3" "update_step (snd (projr ?r)) = 2"
    "fs (snd (projr ?r)) (model_directory ?a (update_step (snd (projr ?r)))) \<noteq> None"
    by code_simp+
  from r(1) obtain p where p: "?r = Inr p" by (cases ?r) auto
  obtain h s' where hs: "p = (h, s')" by (cases p)
  from r(2) p hs have t: "?r = Inr (Stopped, s')" by simp
  from r(3,4,5,6) t have n: "n_forward s' = 2" and l: "local_step s' = 3"
    and u: "update_step s' = 2"
    and x: "fs s' (model_directory ?a (update_step s')) \<noteq> None" by simp_all
  have a: "gradient_accumulation ?a = Some 1" "save_every ?a = 2"
    by (simp_all add: save_at_end_args_def example_args_def)
  have md: "model_directory ?a 2 = ''out/run/model_2''" by code_simp
  from C10_global_step_at_break[OF t, of s' 1] n l u a md
  have "global_step s' = 3 \<and> final_save ?a s' = Inr s' \<and>
        (\<exists>ts. fs s' ''out/run/model_2/training_state.json'' = Some (TrainingStateJson ts) \<and>
              ts_global_step ts = 2 \<and> ts_update_step ts = 2)"
    by (auto simp: n_forward_def initial_state_def)
  then show "\<exists>s'. ?r = Inr (Stopped, s') \<and>
         n_forward s' = 2 \<and> global_step s' = 3 \<and> local_step s' = 3 \<and> update_step s' = 2 \<and>
         fs s' (model_directory ?a (update_step s')) \<noteq> None \<and>
         final_save ?a s' = Inr s' \<and>
         (\<exists>ts. fs s' ''out/run/model_2/training_state.json'' = Some (TrainingStateJson ts) \<and>
               ts_global_step ts = 2 \<and> ts_update_step ts = 2)"
    using t n l u x by blast
qed

text \<open>
  The claim as stated fails when \<^verbatim>\<open>save_every\<close> divides
  \<^verbatim>\<open>num_training_steps\<close> (as the defaults do): the run below computes a loss for 2
  batches and breaks with \<^verbatim>\<open>global_step = 3\<close>; its only checkpoint is the periodic
  one of update step 2, which records \<^verbatim>\<open>global_step = 2\<close>, and none is written after
  the loop.
\<close>

theorem C10_last_checkpoint_is_periodic:
  "\<not> isl (train save_at_end_args example_env (initial_state Map.empty) (replicate 5 example_batch)) \<and>
   fst (projr (train save_at_end_args example_env (initial_state Map.empty)
                 (replicate 5 example_batch))) = Stopped \<and>
   n_forward (snd (projr (train save_at_end_args example_env (initial_state Map.empty)
                 (replicate 5 example_batch)))) = 2 \<and>
   global_step (snd (projr (train save_at_end_args example_env (initial_state Map.empty)
                 (replicate 5 example_batch)))) = 3 \<and>
   trace (snd (projr (train save_at_end_args example_env (initial_state Map.empty)
                 (replicate 5 example_batch))))
     = [Forward, Updated 1 [OptStep] 1, Forward, Updated 2 [OptStep, OptStep] 2,
        Saved ''out/run/model_2''] \<and>
   fs (snd (projr (train save_at_end_args example_env (initial_state Map.empty)
                 (replicate 5 example_batch)))) ''out/run/model_2/training_state.json''
     = Some (TrainingStateJson \<lparr>ts_global_step = 2, ts_update_step = 2, ts_tokens_seen = 16,
               ts_tokens_seen_before = 8, ts_n_lora_restarts = 0\<rparr>) \<and>
   fs (snd (projr (train save_at_end_args example_env (initial_state Map.empty)
                 (replicate 5 example_batch)))) ''out/run/training_state.json'' = None"
  by code_simp

section \<open>When the adapter is merged and reset\<close>







text \<open>
  C2. The claim allows a reset on a run that is not resumed only after at least
  \<^verbatim>\<open>relora\<close> micro-steps. The guard compares
  \<^verbatim>\<open>local_step * gradient_accumulation\<close> with \<^verbatim>\<open>relora\<close>: on a fresh run with
  \<^verbatim>\<open>gradient_accumulation = 11\<close> and \<^verbatim>\<open>relora = 100\<close> the first update step, after
  11 micro-steps, has \<open>11 * 11 > 100\<close> and \<open>1 mod 100 = 1\<close>, and the reset is done.
\<close>

theorem C2_reset_after_eleven_micro_steps:
  "\<not> isl (train_loop (example_args\<lparr>gradient_accumulation := Some 11, relora := Some 100\<rparr>)
            example_env (initial_state Map.empty) (replicate 11 example_batch)) \<and>
   local_step (snd (projr (train_loop (example_args\<lparr>gradient_accumulation := Some 11, relora := Some 100\<rparr>)
            example_env (initial_state Map.empty) (replicate 11 example_batch)))) = 11 \<and>
   update_step (snd (projr (train_loop (example_args\<lparr>gradient_accumulation := Some 11, relora := Some 100\<rparr>)
            example_env (initial_state Map.empty) (replicate 11 example_batch)))) = 1 \<and>
   resets (snd (projr (train_loop (example_args\<lparr>gradient_accumulation := Some 11, relora := Some 100\<rparr>)
            example_env (initial_state Map.empty) (replicate 11 example_batch)))) = [1] \<and>
   n_lora_restarts (snd (projr (train_loop (example_args\<lparr>gradient_accumulation := Some 11, relora := Some 100\<rparr>)
            example_env (initial_state Map.empty) (replicate 11 example_batch)))) = 1"
  by code_simp

section \<open>Resuming without ReLoRA\<close>

lemma mod_succ_int:
  assumes "0 < (g::int)"
  shows "(x + 1) mod g = (if x mod g + 1 = g then 0 else x mod g + 1)"
proof -
  define q where "q = x div g"
  define r where "r = x mod g"
  have x: "x = g * q + r" and r: "0 \<le> r" "r < g"
    using assms by (simp_all add: q_def r_def)
  show ?thesis
  proof (cases "r + 1 = g")
    case True
    then have e: "x + 1 = g * (q + 1) + 0" using x by (simp add: algebra_simps)
    have "(x + 1) mod g = 0" using int_mod_pos_eq[OF e] assms by simp
    then show ?thesis using True by (simp add: r_def)
  next
    case False
    then have b: "0 \<le> r + 1" "r + 1 < g" using r by simp_all
    have e: "x + 1 = g * q + (r + 1)" using x by simp
    have "(x + 1) mod g = r + 1" using int_mod_pos_eq[OF e b] .
    then show ?thesis using False by (simp add: r_def)
  qed
qed

lemma micro_step_accumulate:
  assumes "update_step s < num_training_steps a" "loss b \<noteq> NaN"
    "gradient_accumulation a = Some g" "g \<noteq> 0" "(global_step s + 1) mod g \<noteq> 0"
  shows "micro_step a e s b = Inr (Continue,
           s\<lparr>global_step := global_step s + 1, local_step := local_step s + 1,
             tokens_seen := tokens_seen s + numel b * world_size e,
             trace := trace s @ [Forward]\<rparr>)"
  using assms by (simp add: micro_step_def Let_def isnan_def)

lemma micro_step_resumed_without_relora:
  assumes "update_step s < num_training_steps a" "loss b \<noteq> NaN"
    "gradient_accumulation a = Some g" "g \<noteq> 0" "(global_step s + 1) mod g = 0"
    "local_step s + 1 \<le> g" "resume_from a = Some p" "relora a = None"
  shows "micro_step a e s b = Inl TypeError"
proof -
  let ?s2 = "s\<lparr>global_step := global_step s + 1, local_step := local_step s + 1,
               tokens_seen := tokens_seen s + numel b * world_size e,
               trace := trace s @ [Forward]\<rparr>"
  have sv: "save_phase a g (apply_update ?s2) = Inr (apply_update ?s2)"
    using assms(6) by (simp add: save_phase_def apply_update_def Let_def)
  have rs: "reset_phase a g (apply_update ?s2) = Inl TypeError"
    using assms(7,8) by (simp add: reset_phase_def can_reset_def)
  have "update_phase a e g ?s2 = Inl TypeError"
    by (simp add: update_phase_def sv rs)
  then show ?thesis using assms(1-5)
    by (simp add: micro_step_def Let_def isnan_def)
qed

lemma first_update_raises:
  assumes a: "resume_from a = Some p" "relora a = None" "gradient_accumulation a = Some g" "0 < g"
  shows "g - global_step s mod g = int (Suc n) \<Longrightarrow> local_step s + int (Suc n) \<le> g \<Longrightarrow>
         update_step s < num_training_steps a \<Longrightarrow> n < length bs \<Longrightarrow>
         \<forall>b \<in> set (take (Suc n) bs). loss b \<noteq> NaN \<Longrightarrow>
         train_loop a e s bs = Inl TypeError"
proof (induction n arbitrary: s bs)
  case 0
  then obtain b bs' where bs: "bs = b # bs'" by (cases bs) auto
  have l: "loss b \<noteq> NaN" using 0(5) bs by simp
  have m: "(global_step s + 1) mod g = 0" using mod_succ_int[OF a(4), of "global_step s"] 0(1) by simp
  have "micro_step a e s b = Inl TypeError"
    using micro_step_resumed_without_relora[OF 0(3) l a(3) _ m _ a(1,2)] a(4) 0(2) by simp
  then show ?case by (simp add: bs)
next
  case (Suc n)
  then obtain b bs' where bs: "bs = b # bs'" by (cases bs) auto
  have l: "loss b \<noteq> NaN" using Suc.prems(5) bs by simp
  have m: "(global_step s + 1) mod g = global_step s mod g + 1"
    using mod_succ_int[OF a(4), of "global_step s"] Suc.prems(1) by simp
  have nz: "(global_step s + 1) mod g \<noteq> 0"
  proof -
    have "0 \<le> global_step s mod g" using a(4) by simp
    then show ?thesis using m by simp
  qed
  let ?s2 = "s\<lparr>global_step := global_step s + 1, local_step := local_step s + 1,
               tokens_seen := tokens_seen s + numel b * world_size e,
               trace := trace s @ [Forward]\<rparr>"
  have ms: "micro_step a e s b = Inr (Continue, ?s2)"
    using micro_step_accumulate[OF Suc.prems(3) l a(3) _ nz] a(4) by simp
  have "train_loop a e ?s2 bs' = Inl TypeError"
  proof (rule Suc.IH)
    show "g - global_step ?s2 mod g = int (Suc n)" using m Suc.prems(1) by simp
    show "local_step ?s2 + int (Suc n) \<le> g" using Suc.prems(2) by simp
    show "update_step ?s2 < num_training_steps a" using Suc.prems(3) by simp
    show "n < length bs'" using Suc.prems(4) bs by simp
    show "\<forall>b \<in> set (take (Suc n) bs'). loss b \<noteq> NaN" using Suc.prems(5) bs by simp
  qed
  then show ?case by (simp add: bs ms)
qed

text \<open>
  C9. When the run is resumed (\<^verbatim>\<open>resume_from\<close> is set) and \<^verbatim>\<open>relora\<close> is
  \<^verbatim>\<open>None\<close>, the loop raises TypeError at its first update step: \<^verbatim>\<open>can_reset\<close>
  holds, and \<^verbatim>\<open>update_step % args.relora\<close> is evaluated with the divisor
  \<^verbatim>\<open>None\<close>. The first update step is reached when the target number of updates is not
  yet met, the loader has the batches up to it and their losses are not NaN.
\<close>

theorem C9_resumed_without_relora_raises:
  assumes "resume_from a = Some p" "relora a = None" "gradient_accumulation a = Some g" "0 < g"
    "local_step s = 0" "update_step s < num_training_steps a"
    "nat (g - global_step s mod g) \<le> length bs"
    "\<forall>b \<in> set (take (nat (g - global_step s mod g)) bs). loss b \<noteq> NaN"
  shows "train_loop a e s bs = Inl TypeError"
proof -
  have r: "0 \<le> global_step s mod g" "global_step s mod g < g" using assms(4) by simp_all
  then obtain n where n: "g - global_step s mod g = int (Suc n)"
    by (metis Suc_pred' diff_gt_0_iff_gt int_nat_eq less_le_not_le zero_less_nat_eq)
  then have nn: "nat (g - global_step s mod g) = Suc n" by simp
  show ?thesis
  proof (rule first_update_raises[OF assms(1-4) n])
    show "local_step s + int (Suc n) \<le> g" using n r assms(5) by simp
    show "update_step s < num_training_steps a" by (rule assms(6))
    show "n < length bs" using assms(7) nn by simp
    show "\<forall>b \<in> set (take (Suc n) bs). loss b \<noteq> NaN" using assms(8) nn by simp
  qed
qed

theorem C9_resumed_without_relora_witness:
  "resume_from (example_args\<lparr>gradient_accumulation := Some 4, resume_from := Some ''out/run/model_100''\<rparr>)
     = Some ''out/run/model_100'' \<and>
   relora (example_args\<lparr>gradient_accumulation := Some 4, resume_from := Some ''out/run/model_100''\<rparr>) = None \<and>
   local_step resumed_state = 0 \<and> update_step resumed_state = 100 \<and>
   nat (4 - global_step resumed_state mod 4) = 4 \<and>
   train_loop (example_args\<lparr>gradient_accumulation := Some 4, resume_from := Some ''out/run/model_100''\<rparr>)
     example_env resumed_state (replicate 6 example_batch) = Inl TypeError"
  using C9_resumed_without_relora_raises
    [of "example_args\<lparr>gradient_accumulation := Some 4, resume_from := Some ''out/run/model_100''\<rparr>"
        "''out/run/model_100''" 4 resumed_state "replicate 6 example_batch" example_env]
  by (simp add: example_args_def resumed_state_def initial_state_def example_batch_def)

section \<open>Non-finite losses\<close>

lemma train_loop_append:
  "train_loop a e s (xs @ ys) =
     (case train_loop a e s xs of
        Inl err \<Rightarrow> Inl err
      | Inr (Stopped, s1) \<Rightarrow> Inr (Stopped, s1)
      | Inr (Exhausted, s1) \<Rightarrow> train_loop a e s1 ys)"
  by (induction xs arbitrary: s) (auto split: sum.splits loop_ctl.splits loop_end.splits)

lemma micro_step_nan:
  "update_step s < num_training_steps a \<Longrightarrow> loss b = NaN \<Longrightarrow>
     micro_step a e s b = Inl (AssertionError ''Loss is nan'')"
  by (simp add: micro_step_def Let_def isnan_def)

lemma fl_add_NaN_right [simp]: "fl_add x NaN = NaN"
  by (cases x) simp_all

lemma eval_batches_nan:
  "eval_batches t n j info bs = Inr (info', k) \<Longrightarrow>
     fst info = NaN \<or> (\<exists>i < length bs. loss (bs ! i) = NaN \<and> (t = -1 \<or> int (j + i) \<le> n)) \<Longrightarrow>
     fst info' = NaN"
proof (induction bs arbitrary: j info)
  case Nil
  then show ?case by simp
next
  case (Cons b bs)
  show ?case
  proof (cases "t \<noteq> -1 \<and> int j > n")
    case True
    then have "info' = info" using Cons.prems(1) by simp
    moreover have "fst info = NaN" using Cons.prems(2) True by auto
    ultimately show ?thesis by simp
  next
    case False
    then have pos: "numel b > 0"
      and rec: "eval_batches t n (Suc j) (fl_add (fst info) (loss b), snd info + numel b) bs = Inr (info', k)"
      using Cons.prems(1) by (auto split: if_splits)
    have "fst (fl_add (fst info) (loss b), snd info + numel b) = NaN \<or>
          (\<exists>i < length bs. loss (bs ! i) = NaN \<and> (t = -1 \<or> int (Suc j + i) \<le> n))"
    proof (cases "fst info = NaN")
      case True
      then show ?thesis by simp
    next
      case False
      then obtain i where i: "i < length (b # bs)" "loss ((b # bs) ! i) = NaN"
        "t = -1 \<or> int (j + i) \<le> n" using Cons.prems(2) by blast
      show ?thesis
      proof (cases i)
        case 0
        then show ?thesis using i by simp
      next
        case (Suc i')
        then have "i' < length bs \<and> loss (bs ! i') = NaN \<and> (t = -1 \<or> int (Suc j + i') \<le> n)"
          using i by simp
        then show ?thesis by blast
      qed
    qed
    from Cons.IH[OF rec this] show ?thesis .
  qed
qed

lemma evaluate_model_nan:
  assumes "i < length bs" "loss (bs ! i) = NaN"
    "target = -1 \<or> int i \<le> trunc_div target (numel (hd bs) + peer_first_tokens peers)"
  shows "isl (evaluate_model peers target bs)"
proof (rule ccontr)
  assume "\<not> isl (evaluate_model peers target bs)"
  then obtain r where r: "evaluate_model peers target bs = Inr r"
    by (cases "evaluate_model peers target bs") auto
  from assms(1) obtain b rest where bs: "bs = b # rest" by (cases bs) auto
  from r bs obtain n info k where
    n: "estimate_eval_iters target (numel b + peer_first_tokens peers) = Inr n"
    and eb: "eval_batches target n 0 (Finite, 0) bs = Inr (info, k)"
    and nn: "\<not> isnan (fst info)"
    by (auto simp: evaluate_model_def split: sum.splits if_splits prod.splits)
  from n have nd: "n = trunc_div target (numel b + peer_first_tokens peers)"
    by (auto simp: estimate_eval_iters_def split: if_splits)
  have "fst info = NaN"
    using eval_batches_nan[OF eb] assms nd bs by auto
  then show False using nn by (simp add: isnan_def)
qed

text \<open>
  C4 (as amended). A NaN loss aborts: when the training loop has processed the batches
  before it and the target number of updates is not yet met, a batch whose loss is NaN
  makes the loop raise the assertion error, whatever batches follow it; and
  \<^verbatim>\<open>evaluate_model\<close> raises when one of the batches it runs the model on (all of them
  for the budget -1, those of index at most \<^verbatim>\<open>n_eval_iters\<close> otherwise) has a NaN
  loss. Nothing is said of an infinite loss.
\<close>

theorem C4_nan_loss_aborts:
  "(train_loop a e s pre = Inr (Exhausted, s1) \<and> update_step s1 < num_training_steps a \<and>
    loss b = NaN \<longrightarrow>
      train_loop a e s (pre @ b # post) = Inl (AssertionError ''Loss is nan'')) \<and>
   (i < length bs \<and> loss (bs ! i) = NaN \<and>
    (target = -1 \<or> int i \<le> trunc_div target (numel (hd bs) + peer_first_tokens peers)) \<longrightarrow>
      isl (evaluate_model peers target bs))"
proof (intro conjI impI)
  assume h: "train_loop a e s pre = Inr (Exhausted, s1) \<and> update_step s1 < num_training_steps a \<and>
    loss b = NaN"
  then have "micro_step a e s1 b = Inl (AssertionError ''Loss is nan'')"
    using micro_step_nan by blast
  then show "train_loop a e s (pre @ b # post) = Inl (AssertionError ''Loss is nan'')"
    using h by (simp add: train_loop_append)
next
  assume "i < length bs \<and> loss (bs ! i) = NaN \<and>
    (target = -1 \<or> int i \<le> trunc_div target (numel (hd bs) + peer_first_tokens peers))"
  then show "isl (evaluate_model peers target bs)"
    using evaluate_model_nan by blast
qed


theorem C4_nan_loss_witness:
  "train_loop (example_args\<lparr>gradient_accumulation := Some 1\<rparr>) example_env
     (initial_state Map.empty) ([example_batch, example_batch] @ nan_batch # [example_batch])
     = Inl (AssertionError ''Loss is nan'') \<and>
   isl (evaluate_model no_peers 100 [example_batch, nan_batch, example_batch])"
proof -
  let ?a = "example_args\<lparr>gradient_accumulation := Some 1\<rparr>"
  let ?r = "train_loop ?a example_env (initial_state Map.empty) [example_batch, example_batch]"
  have r: "\<not> isl ?r" "fst (projr ?r) = Exhausted"
    "update_step (snd (projr ?r)) < num_training_steps ?a" by code_simp+
  from r(1) obtain p where p: "?r = Inr p" by (cases ?r) auto
  obtain h s1 where hs: "p = (h, s1)" by (cases p)
  from r(2,3) p hs have t: "?r = Inr (Exhausted, s1)"
    and u: "update_step s1 < num_training_steps ?a" by simp_all
  have n: "loss nan_batch = NaN" by (simp add: nan_batch_def)
  have i: "(1::nat) < length [example_batch, nan_batch, example_batch]"
    "loss ([example_batch, nan_batch, example_batch] ! 1) = NaN"
    "(100::int) = -1 \<or> int 1 \<le> trunc_div 100
        (numel (hd [example_batch, nan_batch, example_batch]) + peer_first_tokens no_peers)"
    by (simp_all add: nan_batch_def example_batch_def no_peers_def trunc_div_def)
  from C4_nan_loss_aborts[of ?a example_env "initial_state Map.empty"
      "[example_batch, example_batch]" s1 nan_batch "[example_batch]" 1
      "[example_batch, nan_batch, example_batch]" 100 no_peers] t u n i
  show ?thesis by blast
qed

text \<open>
  The claim as stated fails for an infinite loss: \<^verbatim>\<open>torch.isnan\<close> is false on it,
  the training loop goes on to the next updates, and the evaluation returns an infinite
  sum.
\<close>

theorem C4_infinite_loss_not_detected:
  "\<not> isl (train_loop (example_args\<lparr>gradient_accumulation := Some 1\<rparr>) example_env
            (initial_state Map.empty) [inf_batch, example_batch]) \<and>
   updates (snd (projr (train_loop (example_args\<lparr>gradient_accumulation := Some 1\<rparr>) example_env
            (initial_state Map.empty) [inf_batch, example_batch]))) = [1, 2] \<and>
   n_forward (snd (projr (train_loop (example_args\<lparr>gradient_accumulation := Some 1\<rparr>) example_env
            (initial_state Map.empty) [inf_batch, example_batch]))) = 2 \<and>
   \<not> isl (evaluate_model no_peers 100 [inf_batch, example_batch]) \<and>
   loss_sum (projr (evaluate_model no_peers 100 [inf_batch, example_batch])) = PosInf"
  by code_simp

section \<open>The number of evaluation iterations\<close>

text \<open>
  C6. With a budget of 8 tokens and batches of 4 tokens on a single process,
  \<^verbatim>\<open>n_eval_iters\<close> is 2, and the loop, which breaks when \<^verbatim>\<open>i > n_eval_iters\<close>,
  runs the model on 3 batches (12 tokens).
\<close>

theorem C6_one_iteration_more:
  "evaluate_model no_peers 8 (replicate 4 \<lparr>numel = 4, loss = Finite\<rparr>) =
     Inr \<lparr>loss_sum = Finite, evaluated_on_tokens = 12, n_eval_iters = Some 2,
          forward_passes = 3\<rparr>"
  by code_simp

section \<open>Where the checkpoints are written\<close>

text \<open>
  C8. A run of one update step with \<^verbatim>\<open>save_dir = out/run\<close>: after the loop,
  \<^verbatim>\<open>out/run/model_1\<close> does not exist and \<^verbatim>\<open>save_model\<close> is called with
  \<^verbatim>\<open>save_dir=args.save_dir\<close>, so that the weights and the training state (of update
  step 1) are written to \<^verbatim>\<open>out/run\<close> itself and nothing is under
  \<^verbatim>\<open>out/run/model_1\<close>.
\<close>

theorem C8_final_checkpoint_in_save_dir:
  "\<not> isl (train (example_args\<lparr>gradient_accumulation := Some 1, num_training_steps := 1\<rparr>)
            example_env (initial_state Map.empty) [example_batch, example_batch]) \<and>
   update_step (snd (projr (train (example_args\<lparr>gradient_accumulation := Some 1, num_training_steps := 1\<rparr>)
            example_env (initial_state Map.empty) [example_batch, example_batch]))) = 1 \<and>
   trace (snd (projr (train (example_args\<lparr>gradient_accumulation := Some 1, num_training_steps := 1\<rparr>)
            example_env (initial_state Map.empty) [example_batch, example_batch])))
     = [Forward, Updated 1 [OptStep] 1, Saved ''out/run''] \<and>
   fs (snd (projr (train (example_args\<lparr>gradient_accumulation := Some 1, num_training_steps := 1\<rparr>)
            example_env (initial_state Map.empty) [example_batch, example_batch])))
      ''out/run/training_state.json''
     = Some (TrainingStateJson \<lparr>ts_global_step = 2, ts_update_step = 1, ts_tokens_seen = 8,
               ts_tokens_seen_before = 8, ts_n_lora_restarts = 0\<rparr>) \<and>
   fs (snd (projr (train (example_args\<lparr>gradient_accumulation := Some 1, num_training_steps := 1\<rparr>)
            example_env (initial_state Map.empty) [example_batch, example_batch])))
      ''out/run/pytorch_model.bin'' = Some PytorchModelBin \<and>
   fs (snd (projr (train (example_args\<lparr>gradient_accumulation := Some 1, num_training_steps := 1\<rparr>)
            example_env (initial_state Map.empty) [example_batch, example_batch])))
      ''out/run/model_1'' = None \<and>
   fs (snd (projr (train (example_args\<lparr>gradient_accumulation := Some 1, num_training_steps := 1\<rparr>)
            example_env (initial_state Map.empty) [example_batch, example_batch])))
      ''out/run/model_1/pytorch_model.bin'' = None \<and>
   fs (snd (projr (train (example_args\<lparr>gradient_accumulation := Some 1, num_training_steps := 1\<rparr>)
            example_env (initial_state Map.empty) [example_batch, example_batch])))
      ''out/run/model_1/training_state.json'' = None"
  by code_simp

section \<open>Resuming from a checkpoint\<close>

lemma autoresume_restores_periodic_checkpoint:
  assumes w: "write_checkpoint a0 (model_directory a u) s0 = Inr s'"
    and c: "fs s' (model_directory a u @ ''/training_config.yaml'') = None"
    and d: "fs s' (save_dir a) \<noteq> None" "autoresume a" "save_dir a \<noteq> []"
    and g: "get_last (fs s') (save_dir a) = Some (model_directory a u)"
    and o: "warmed_up_model a = None" "distributed_type a \<noteq> ''fsdp''"
  shows "\<exists>a1 r. startup_state get_last a (fs s') = Inr (a1, r) \<and>
           resume_from a1 = Some (model_directory a u) \<and>
           update_step r = update_step s0 \<and> global_step r = global_step s0 \<and>
           tokens_seen r = tokens_seen s0 \<and> tokens_seen_before r = tokens_seen_before s0 \<and>
           n_lora_restarts r = n_lora_restarts s0 \<and>
           optimizer r = optimizer s0 \<and> scheduler r = scheduler s0"
proof -
  let ?d = "model_directory a u"
  let ?a1 = "a\<lparr>resume_from := Some ?d\<rparr>"
  let ?f1 = "(fs s')(save_dir a \<mapsto> Directory,
               save_dir a @ ''/training_config.yaml'' \<mapsto> TrainingConfigYaml (batch_size a))"
  have ne: "?d \<noteq> []" by (simp add: model_directory_def)
  have k: "check_save_dir get_last a (fs s') = Inr (?a1, Bound (Some ?d))"
    using d g by (simp add: check_save_dir_def Let_def)
  have wc: "write_training_config ?a1 (fs s') = Inr ?f1"
    using d by (simp add: write_training_config_def)
  have p: "?f1 (?d @ ''/pytorch_model.bin'') = Some PytorchModelBin"
    "?f1 (?d @ ''/training_state.json'') = Some (TrainingStateJson (training_state_of s0))"
    "?f1 (?d @ ''/optimizer.pt'') = Some (OptimizerPt
        \<lparr>ck_optimizer = optimizer s0, ck_scheduler = scheduler s0,
         ck_update_step = update_step s0, ck_global_step = global_step s0\<rparr>)"
    "?f1 (?d @ ''/training_config.yaml'') = None"
    using write_checkpoint_files(1-3)[OF w] c by (simp_all add: model_directory_def)
  let ?s1 = "(initial_state ?f1)\<lparr>global_step := global_step s0, update_step := update_step s0,
       tokens_seen := tokens_seen s0, tokens_seen_before := tokens_seen_before s0,
       n_lora_restarts := n_lora_restarts s0\<rparr>"
  have l1: "load_training_state ?d (initial_state ?f1) = Inr ?s1"
    using p(1,2) by (simp add: load_training_state_def initial_state_def training_state_of_def)
  let ?s2 = "?s1\<lparr>optimizer := optimizer s0, scheduler := scheduler s0,
                 update_step := update_step s0, global_step := global_step s0\<rparr>"
  have l2: "load_optimizer ?a1 (Bound (Some ?d)) ?d ?s1 = Inr ?s2"
    using p(3,4) by (simp add: load_optimizer_def initial_state_def Let_def)
  have "startup_state get_last a (fs s') = Inr (?a1, ?s2)"
    using o ne by (simp add: startup_state_def k wc l1 l2)
  then show ?thesis by (simp add: initial_state_def)
qed

text \<open>
  C7. The first run leaves a complete checkpoint of update step 4 in
  \<^verbatim>\<open>out/run/model_4\<close>. A second run that names it with \<^verbatim>\<open>--resume_from\<close> and
  has a save directory that does not exist yet reads the training state and the optimizer
  and then raises at line 684, where the local \<^verbatim>\<open>resume_from\<close> is read and was never
  assigned: nothing is restored and no training is done. The same checkpoint is restored
  when the second run finds it through \<^verbatim>\<open>--autoresume\<close> on the old save directory.
\<close>

theorem C7_resume_from_raises:
  "first_run_files ''out/run/model_4/pytorch_model.bin'' = Some PytorchModelBin \<and>
   first_run_files ''out/run/model_4/training_state.json'' = Some (TrainingStateJson
      \<lparr>ts_global_step = 4, ts_update_step = 4, ts_tokens_seen = 32,
       ts_tokens_seen_before = 24, ts_n_lora_restarts = 0\<rparr>) \<and>
   first_run_files ''out/run/model_4/optimizer.pt'' = Some (OptimizerPt
      \<lparr>ck_optimizer = [OptStep, OptStep, OptStep, OptStep], ck_scheduler = 4,
       ck_update_step = 4, ck_global_step = 4\<rparr>) \<and>
   first_run_files ''out/new'' = None \<and>
   isl (startup_state no_checkpoint resume_from_args first_run_files) \<and>
   projl (startup_state no_checkpoint resume_from_args first_run_files) = UnboundLocalError \<and>
   isl (run_main no_checkpoint resume_from_args example_env first_run_files
          (replicate 4 example_batch)) \<and>
   projl (run_main no_checkpoint resume_from_args example_env first_run_files
            (replicate 4 example_batch)) = UnboundLocalError \<and>
   \<not> isl (startup_state last_is_model_4 autoresume_args first_run_files) \<and>
   update_step (snd (projr (startup_state last_is_model_4 autoresume_args first_run_files))) = 4 \<and>
   optimizer (snd (projr (startup_state last_is_model_4 autoresume_args first_run_files)))
     = [OptStep, OptStep, OptStep, OptStep]"
  by code_simp

end
